theory Spec2Isabelle
  imports Main
begin

section \<open>Doubt-session chat: data model\<close>

text \<open>
  The doubt-session subsystem of the school-management backend: the Mongoose models
  \<^verbatim>\<open>models/Doubt.js\<close> and \<^verbatim>\<open>models/ChatMessage.js\<close>, the guard
  \<^verbatim>\<open>isParticipantInDoubtSession\<close> of \<^verbatim>\<open>middleware/authMiddleware.js\<close>, the handlers of
  \<^verbatim>\<open>controllers/doubtController.js\<close> and the routes of \<^verbatim>\<open>routes/doubtRoutes.js\<close>.

  Object ids and timestamps are natural numbers. A request is handled in one piece:
  the interleaving of two handlers between their awaits is not modelled, the delayed
  responder callbacks are separate steps. Socket.IO emissions do not touch what is
  stored and are left out (the transport is taken to be initialised).
\<close>

type_synonym object_id = nat
type_synonym time = nat

text \<open>The \<^verbatim>\<open>enum\<close>s of the \<^verbatim>\<open>doubtType\<close> and \<^verbatim>\<open>status\<close> paths of the session schema.\<close>

datatype doubt_type = TrainerDoubt | AiDoubt

datatype status = Pending | In_progress | Resolved | Closed | Cancelled

text \<open>The string each status is stored as; query filters compare these strings.\<close>

fun status_str :: "status \<Rightarrow> string" where
  "status_str Pending = ''pending''"
| "status_str In_progress = ''in_progress''"
| "status_str Resolved = ''resolved''"
| "status_str Closed = ''closed''"
| "status_str Cancelled = ''cancelled''"

text \<open>The fields of a User document that the doubt controller selects.\<close>

record user =
  user_name :: string
  user_role :: string
  user_school :: "string option"
  user_grade :: "int option"

text \<open>
  A DoubtSession document. \<open>sid\<close> is its \<^verbatim>\<open>_id\<close>. The required paths are not optional
  here: a document is only stored after validation. The AI feedback paths, which only
  \<^verbatim>\<open>submitAiFeedback\<close> writes, are left out.
\<close>

record doubt_session =
  sid :: object_id
  student :: object_id
  trainer :: "object_id option"
  grade :: int
  school :: object_id
  session :: "object_id option"
  initialDoubtText :: string
  doubtType :: doubt_type
  status :: status
  lastMessageAt :: time
  updatedAt :: time

text \<open>
  A ChatMessage document. \<open>senderRole\<close> is the string the handler passes in (the role of
  the token), checked against the schema's enum on save. An optional string is \<open>None\<close>
  when the field is absent.
\<close>

record chat_message =
  doubtSession :: object_id
  sender :: "object_id option"
  senderRole :: string
  messageText :: "string option"
  attachmentUrl :: "string option"
  createdAt :: time

text \<open>
  The callbacks handed to \<^verbatim>\<open>setTimeout\<close>, with what their closures capture: the session
  document's id, and the student's name and the initial text (first answer) or the
  message text (answer to a follow-up).
\<close>

datatype task =
    InitialReply object_id string string
  | FollowUpReply object_id "string option"

type_synonym timer = "time \<times> task"

text \<open>
  The collections the subsystem reads and writes, the pending timers and the next fresh
  object id. \<open>schools\<close> pairs each \<^verbatim>\<open>schoolName\<close> with the document's id; \<open>sessionDocs\<close>
  holds, for each Session document, the ids of its \<^verbatim>\<open>sessions\<close> subdocuments.
\<close>

record world =
  users :: "(object_id \<times> user) list"
  schools :: "(string \<times> object_id) list"
  sessionDocs :: "object_id list list"
  doubtSessions :: "doubt_session list"
  chatMessages :: "chat_message list"
  timers :: "timer list"
  nextId :: object_id

text \<open>What a handler answers: the HTTP status and which body it sends.\<close>

datatype reply =
    MissingTypeOrText
  | StudentNotFound
  | SchoolNotFound
  | MissingSchool
  | MissingTrainerOrSession
  | InvalidTrainer
  | InvalidSession
  | InvalidDoubtType
  | ServerError
  | InitiatedWithTrainer object_id
  | InitiatedWithAi object_id
  | StudentRoleRequired
  | SessionNotFound
  | NotAuthorized
  | Messages "chat_message list"
  | MissingTextOrAttachment
  | CannotSendToClosedOrResolved
  | MessageSent chat_message
  | AlreadyClosedResolvedOrCancelled
  | OnlyParticipantsCanClose
  | ClosedSuccessfully

type_synonym response = "nat \<times> reply"

section \<open>JavaScript and Mongoose helpers\<close>

text \<open>Truthiness of an optional string: absent and the empty string are falsy.\<close>

definition truthy :: "string option \<Rightarrow> bool" where
  "truthy v = (case v of None \<Rightarrow> False | Some s \<Rightarrow> s \<noteq> [])"

text \<open>An absent value inside a template literal prints as \<^verbatim>\<open>undefined\<close>.\<close>

definition js_string :: "string option \<Rightarrow> string" where
  "js_string v = (case v of None \<Rightarrow> ''undefined'' | Some s \<Rightarrow> s)"

text \<open>
  \<^verbatim>\<open>trim: true\<close> of the schema: leading and trailing white space removed (the ASCII white
  space characters; a string is a list of bytes here).
\<close>

definition is_space :: "char \<Rightarrow> bool" where
  "is_space c = (c \<in> set [CHR '' '', CHR 0x09, CHR 0x0A, CHR 0x0B, CHR 0x0C, CHR 0x0D])"

definition js_trim :: "string \<Rightarrow> string" where
  "js_trim s = rev (dropWhile is_space (rev (dropWhile is_space s)))"

definition find_user :: "world \<Rightarrow> object_id \<Rightarrow> user option" where
  "find_user w i = map_of (users w) i"

definition find_school :: "world \<Rightarrow> string \<Rightarrow> object_id option" where
  "find_school w nm = map_of (schools w) nm"

definition find_session_doc :: "world \<Rightarrow> object_id \<Rightarrow> object_id list option" where
  "find_session_doc w i = find (\<lambda>d. i \<in> set d) (sessionDocs w)"

definition find_session :: "world \<Rightarrow> object_id \<Rightarrow> doubt_session option" where
  "find_session w i = find (\<lambda>d. sid d = i) (doubtSessions w)"

text \<open>
  \<^verbatim>\<open>doc.save()\<close> of a loaded session document: the paths the caller assigned are written
  to the stored document of the same id.
\<close>

definition update_session :: "object_id \<Rightarrow> (doubt_session \<Rightarrow> doubt_session) \<Rightarrow> world \<Rightarrow> world" where
  "update_session i f w =
     w\<lparr>doubtSessions := map (\<lambda>d. if sid d = i then f d else d) (doubtSessions w)\<rparr>"

text \<open>
  Validation of a ChatMessage: \<open>senderRole\<close> is in the enum, and \<open>messageText\<close> is
  required (present and not empty) when there is no attachment URL.
\<close>

definition chatMessage_valid :: "chat_message \<Rightarrow> bool" where
  "chatMessage_valid m =
     (senderRole m \<in> set [''student'', ''trainer'', ''ai'', ''system''] \<and>
      (if truthy (attachmentUrl m) then True else truthy (messageText m)))"

text \<open>\<^verbatim>\<open>new ChatMessage(...).save()\<close>: \<open>None\<close> when validation throws.\<close>

definition save_message :: "chat_message \<Rightarrow> world \<Rightarrow> world option" where
  "save_message m w =
     (if chatMessage_valid m then Some (w\<lparr>chatMessages := chatMessages w @ [m]\<rparr>) else None)"

text \<open>
  \<^verbatim>\<open>new DoubtSession(...).save()\<close>: \<open>grade\<close> is required, \<open>initialDoubtText\<close> is trimmed and
  required; \<open>None\<close> when validation throws. The document gets a fresh id.
\<close>

definition create_session ::
  "time \<Rightarrow> object_id \<Rightarrow> user \<Rightarrow> object_id \<Rightarrow> string \<Rightarrow> doubt_type \<Rightarrow> object_id option \<Rightarrow>
   object_id option \<Rightarrow> status \<Rightarrow> world \<Rightarrow> (doubt_session \<times> world) option" where
  "create_session now studentId st schoolObjectId txt ty tr topic s0 w =
     (case user_grade st of
        None \<Rightarrow> None
      | Some g \<Rightarrow>
          if js_trim txt = [] then None
          else
            let d = \<lparr>sid = nextId w, student = studentId, trainer = tr, grade = g,
                     school = schoolObjectId, session = topic, initialDoubtText = js_trim txt,
                     doubtType = ty, status = s0, lastMessageAt = now, updatedAt = now\<rparr>
            in Some (d, w\<lparr>doubtSessions := doubtSessions w @ [d], nextId := Suc (nextId w)\<rparr>))"

section \<open>The authorization guard\<close>

text \<open>
  \<^verbatim>\<open>isParticipantInDoubtSession\<close>: \<open>Inl\<close> is the response the middleware sends itself,
  \<open>Inr\<close> is \<^verbatim>\<open>next()\<close> with the value of \<^verbatim>\<open>req.doubtSession\<close>. For an admin the middleware
  calls \<^verbatim>\<open>next()\<close> before it loads the session, so \<^verbatim>\<open>req.doubtSession\<close> stays undefined.
\<close>

definition isParticipantInDoubtSession ::
  "object_id \<Rightarrow> string \<Rightarrow> object_id \<Rightarrow> world \<Rightarrow> response + doubt_session option" where
  "isParticipantInDoubtSession userId userRole doubtSessionId w =
     (if userRole = ''admin'' then Inr None
      else
        case find_session w doubtSessionId of
          None \<Rightarrow> Inl (404, SessionNotFound)
        | Some d \<Rightarrow>
            if student d \<noteq> userId \<and> trainer d \<noteq> Some userId then Inl (403, NotAuthorized)
            else Inr (Some d))"

section \<open>The handlers\<close>

text \<open>
  \<^verbatim>\<open>closeDoubtSession\<close>. Reading \<^verbatim>\<open>doubtSession.status\<close> of an undefined
  \<^verbatim>\<open>req.doubtSession\<close> throws inside the \<^verbatim>\<open>try\<close>, which answers 500.
\<close>

definition closeDoubtSession ::
  "time \<Rightarrow> object_id \<Rightarrow> string \<Rightarrow> doubt_session option \<Rightarrow> world \<Rightarrow> response \<times> world" where
  "closeDoubtSession now userId userRole req_doubtSession w =
     (case req_doubtSession of
        None \<Rightarrow> ((500, ServerError), w)
      | Some d \<Rightarrow>
          if status d = Closed \<or> status d = Resolved \<or> status d = Cancelled
          then ((400, AlreadyClosedResolvedOrCancelled), w)
          else if userRole \<noteq> ''admin'' \<and> student d \<noteq> userId \<and> trainer d \<noteq> Some userId
          then ((403, OnlyParticipantsCanClose), w)
          else ((200, ClosedSuccessfully),
                update_session (sid d) (\<lambda>x. x\<lparr>status := Closed, updatedAt := now\<rparr>) w))"

text \<open>\<^verbatim>\<open>getDoubtSessionMessages\<close>: the session's messages by creation time.\<close>

definition getDoubtSessionMessages :: "object_id \<Rightarrow> world \<Rightarrow> response \<times> world" where
  "getDoubtSessionMessages doubtSessionId w =
     ((200, Messages (sort_key createdAt
                        (filter (\<lambda>m. doubtSession m = doubtSessionId) (chatMessages w)))), w)"

text \<open>
  \<^verbatim>\<open>getTrainerDoubtSessions\<close>: the sessions of the trainer whose status is one of the
  strings \<^verbatim>\<open>'pending'\<close>, \<^verbatim>\<open>'open'\<close>, most recently updated first.
\<close>

definition getTrainerDoubtSessions :: "object_id \<Rightarrow> world \<Rightarrow> doubt_session list" where
  "getTrainerDoubtSessions trainerId w =
     rev (sort_key updatedAt
            (filter (\<lambda>d. trainer d = Some trainerId \<and>
                          status_str (status d) \<in> set [''pending'', ''open''])
               (doubtSessions w)))"

text \<open>
  \<^verbatim>\<open>sendDoubtMessage\<close>. The body check runs before the \<^verbatim>\<open>try\<close>; an undefined
  \<^verbatim>\<open>req.doubtSession\<close> throws inside it. A session in \<^verbatim>\<open>resolved\<close>, \<^verbatim>\<open>closed\<close> or
  \<^verbatim>\<open>cancelled\<close> is reopened (and saved) when it is an AI session and the sender is a
  student, and refused otherwise. Then the message is saved, \<open>lastMessageAt\<close> is set, a
  trainer's message moves \<^verbatim>\<open>pending\<close> to \<^verbatim>\<open>in_progress\<close>, and for a student on an AI
  session the follow-up answer is scheduled 3000 ms later.
\<close>

definition sendDoubtMessage ::
  "time \<Rightarrow> object_id \<Rightarrow> string \<Rightarrow> string option \<Rightarrow> string option \<Rightarrow> doubt_session option \<Rightarrow>
   world \<Rightarrow> response \<times> world" where
  "sendDoubtMessage now userId userRole text_in att req_doubtSession w =
     (if \<not> truthy text_in \<and> \<not> truthy att then ((400, MissingTextOrAttachment), w)
      else
        (case req_doubtSession of
           None \<Rightarrow> ((500, ServerError), w)
         | Some d0 \<Rightarrow>
             (let ended = (status d0 = Resolved \<or> status d0 = Closed \<or> status d0 = Cancelled);
                  reopens = (doubtType d0 = AiDoubt \<and> userRole = ''student'')
              in
                if ended \<and> \<not> reopens then ((400, CannotSendToClosedOrResolved), w)
                else
                  (let d1 = (if ended then d0\<lparr>status := In_progress, lastMessageAt := now\<rparr>
                             else d0);
                       w1 = (if ended
                             then update_session (sid d0)
                                    (\<lambda>x. x\<lparr>status := In_progress, lastMessageAt := now,
                                            updatedAt := now\<rparr>) w
                             else w);
                       m = \<lparr>doubtSession = sid d0, sender = Some userId, senderRole = userRole,
                            messageText = text_in, attachmentUrl = att, createdAt = now\<rparr>
                   in
                     (case save_message m w1 of
                        None \<Rightarrow> ((500, ServerError), w1)
                      | Some w2 \<Rightarrow>
                          (let w3 = update_session (sid d0)
                                      (\<lambda>x. if userRole = ''trainer'' \<and> status d1 = Pending
                                            then x\<lparr>lastMessageAt := now, status := In_progress,
                                                   updatedAt := now\<rparr>
                                            else x\<lparr>lastMessageAt := now, updatedAt := now\<rparr>) w2;
                               w4 = (if doubtType d0 = AiDoubt \<and> userRole = ''student''
                                     then w3\<lparr>timers := timers w3 @
                                              [(now + 3000, FollowUpReply (sid d0) text_in)]\<rparr>
                                     else w3)
                           in ((201, MessageSent m), w4)))))))"

text \<open>
  The two branches of \<^verbatim>\<open>initiateDoubtSession\<close>, after the student and the school have
  been resolved. The session is saved first, then the initial message; the AI branch
  schedules the first answer 5000 ms later.
\<close>

definition initial_message :: "time \<Rightarrow> object_id \<Rightarrow> object_id \<Rightarrow> string \<Rightarrow> string option \<Rightarrow> chat_message" where
  "initial_message now i studentId txt att =
     \<lparr>doubtSession = i, sender = Some studentId, senderRole = ''student'',
      messageText = Some txt, attachmentUrl = att, createdAt = now\<rparr>"

definition initiate_trainer ::
  "time \<Rightarrow> object_id \<Rightarrow> user \<Rightarrow> object_id \<Rightarrow> string \<Rightarrow> object_id option \<Rightarrow> object_id option \<Rightarrow>
   string option \<Rightarrow> world \<Rightarrow> response \<times> world" where
  "initiate_trainer now studentId st schoolObjectId txt trainerId sessionId att w =
     (case (trainerId, sessionId) of
        (Some tid, Some topic) \<Rightarrow>
          (case find_user w tid of
             None \<Rightarrow> ((400, InvalidTrainer), w)
           | Some tr \<Rightarrow>
               if user_role tr \<noteq> ''trainer'' then ((400, InvalidTrainer), w)
               else
                 (case find_session_doc w topic of
                    None \<Rightarrow> ((400, InvalidSession), w)
                  | Some sessionDoc \<Rightarrow>
                      (case create_session now studentId st schoolObjectId txt TrainerDoubt
                              (Some tid) (Some topic) Pending w of
                         None \<Rightarrow> ((500, ServerError), w)
                       | Some (d, w1) \<Rightarrow>
                           (case save_message (initial_message now (sid d) studentId txt att) w1 of
                              None \<Rightarrow> ((500, ServerError), w1)
                            | Some w2 \<Rightarrow> ((201, InitiatedWithTrainer (sid d)), w2)))))
      | _ \<Rightarrow> ((400, MissingTrainerOrSession), w))"

definition initiate_ai ::
  "time \<Rightarrow> object_id \<Rightarrow> user \<Rightarrow> object_id \<Rightarrow> string \<Rightarrow> string option \<Rightarrow> world \<Rightarrow> response \<times> world" where
  "initiate_ai now studentId st schoolObjectId txt att w =
     (case create_session now studentId st schoolObjectId txt AiDoubt None None In_progress w of
        None \<Rightarrow> ((500, ServerError), w)
      | Some (d, w1) \<Rightarrow>
          (case save_message (initial_message now (sid d) studentId txt att) w1 of
             None \<Rightarrow> ((500, ServerError), w1)
           | Some w2 \<Rightarrow>
               ((201, InitiatedWithAi (sid d)),
                w2\<lparr>timers := timers w2 @ [(now + 5000, InitialReply (sid d) (user_name st) txt)]\<rparr>)))"

text \<open>The body of \<^verbatim>\<open>POST /api/doubts/initiate\<close>.\<close>

record initiate_body =
  req_doubtType :: "string option"
  req_trainerId :: "object_id option"
  req_sessionId :: "object_id option"
  req_initialDoubtText :: "string option"
  req_attachmentUrl :: "string option"

text \<open>
  \<^verbatim>\<open>initiateDoubtSession\<close>: the body check, the student, the student's school name
  resolved to a School document, then the branch of the doubt type.
\<close>

definition initiateDoubtSession :: "time \<Rightarrow> object_id \<Rightarrow> initiate_body \<Rightarrow> world \<Rightarrow> response \<times> world" where
  "initiateDoubtSession now studentId b w =
     (if \<not> truthy (req_doubtType b) \<or> \<not> truthy (req_initialDoubtText b)
      then ((400, MissingTypeOrText), w)
      else
        case find_user w studentId of
          None \<Rightarrow> ((404, StudentNotFound), w)
        | Some st \<Rightarrow>
            if truthy (user_school st) then
              (case find_school w (js_string (user_school st)) of
                 None \<Rightarrow> ((400, SchoolNotFound), w)
               | Some schoolObjectId \<Rightarrow>
                   if req_doubtType b = Some ''trainer''
                   then initiate_trainer now studentId st schoolObjectId
                          (js_string (req_initialDoubtText b)) (req_trainerId b) (req_sessionId b)
                          (req_attachmentUrl b) w
                   else if req_doubtType b = Some ''ai''
                   then initiate_ai now studentId st schoolObjectId
                          (js_string (req_initialDoubtText b)) (req_attachmentUrl b) w
                   else ((400, InvalidDoubtType), w))
            else ((400, MissingSchool), w))"

section \<open>The simulated responder\<close>

text \<open>The texts the callbacks build (the double quote is 0x22, the right single quote is the UTF-8 bytes E2 80 99).\<close>

definition ai_initial_text :: "string \<Rightarrow> string \<Rightarrow> string" where
  "ai_initial_text student_name txt =
     ''Hello '' @ student_name @ '', I'm the AI assistant! Regarding your doubt: '' @
     [CHR 0x22] @ txt @ [CHR 0x22] @
     '', here's what I found... [Simulated AI Answer based on your query]. Please provide feedback if this was helpful.''"

definition ai_followup_text :: "string option \<Rightarrow> string" where
  "ai_followup_text text_in =
     ''(AI Follow-up to '' @ [CHR 0x22] @ js_string text_in @ [CHR 0x22] @ '') Here'' @
     [CHR 0xE2, CHR 0x80, CHR 0x99] @ ''s more clarification: ... [Simulated AI Answer].''"

definition ai_message :: "time \<Rightarrow> object_id \<Rightarrow> string \<Rightarrow> chat_message" where
  "ai_message now i txt =
     \<lparr>doubtSession = i, sender = None, senderRole = ''ai'', messageText = Some txt,
      attachmentUrl = None, createdAt = now\<rparr>"

definition system_message :: "time \<Rightarrow> object_id \<Rightarrow> string \<Rightarrow> chat_message" where
  "system_message now i txt =
     \<lparr>doubtSession = i, sender = None, senderRole = ''system'', messageText = Some txt,
      attachmentUrl = None, createdAt = now\<rparr>"

text \<open>
  Where the \<^verbatim>\<open>try\<close> block of a callback throws: nowhere, at the save of the AI message,
  or at the save of the session after it. The saves of the \<^verbatim>\<open>catch\<close> block go through.
\<close>

datatype ai_fault = NoFault | MessageSaveFails | SessionSaveFails

text \<open>
  The callback of the first answer: the AI message is saved and the session becomes
  \<^verbatim>\<open>resolved\<close>; the \<^verbatim>\<open>catch\<close> block saves a system message and sets \<^verbatim>\<open>cancelled\<close>. The
  callback writes through the document its closure holds, so the stored status is
  overwritten whatever it has become meanwhile.
\<close>

definition initial_reply_catch :: "time \<Rightarrow> object_id \<Rightarrow> world \<Rightarrow> world" where
  "initial_reply_catch now i w =
     (case save_message
             (system_message now i
                ''AI encountered an error. Please try again later or contact a trainer.'') w of
        None \<Rightarrow> w
      | Some w1 \<Rightarrow>
          update_session i (\<lambda>x. x\<lparr>status := Cancelled, lastMessageAt := now, updatedAt := now\<rparr>) w1)"

definition initial_reply :: "ai_fault \<Rightarrow> time \<Rightarrow> object_id \<Rightarrow> string \<Rightarrow> string \<Rightarrow> world \<Rightarrow> world" where
  "initial_reply f now i student_name txt w =
     (case (if f = MessageSaveFails then None
            else save_message (ai_message now i (ai_initial_text student_name txt)) w) of
        None \<Rightarrow> initial_reply_catch now i w
      | Some w1 \<Rightarrow>
          if f = SessionSaveFails then initial_reply_catch now i w1
          else update_session i
                 (\<lambda>x. x\<lparr>status := Resolved, lastMessageAt := now, updatedAt := now\<rparr>) w1)"

text \<open>
  The callback of a follow-up answer: as above, but its \<^verbatim>\<open>catch\<close> block only saves the
  system message and leaves the session as it is.
\<close>

definition followup_reply_catch :: "time \<Rightarrow> object_id \<Rightarrow> world \<Rightarrow> world" where
  "followup_reply_catch now i w =
     (case save_message
             (system_message now i
                ''AI encountered an error processing your follow-up. Please try again.'') w of
        None \<Rightarrow> w
      | Some w1 \<Rightarrow> w1)"

definition followup_reply :: "ai_fault \<Rightarrow> time \<Rightarrow> object_id \<Rightarrow> string option \<Rightarrow> world \<Rightarrow> world" where
  "followup_reply f now i text_in w =
     (case (if f = MessageSaveFails then None
            else save_message (ai_message now i (ai_followup_text text_in)) w) of
        None \<Rightarrow> followup_reply_catch now i w
      | Some w1 \<Rightarrow>
          if f = SessionSaveFails then followup_reply_catch now i w1
          else update_session i
                 (\<lambda>x. x\<lparr>lastMessageAt := now, status := Resolved, updatedAt := now\<rparr>) w1)"

fun run_task :: "ai_fault \<Rightarrow> time \<Rightarrow> task \<Rightarrow> world \<Rightarrow> world" where
  "run_task f now (InitialReply i student_name txt) w = initial_reply f now i student_name txt w"
| "run_task f now (FollowUpReply i text_in) w = followup_reply f now i text_in w"

fun task_session :: "task \<Rightarrow> object_id" where
  "task_session (InitialReply i student_name txt) = i"
| "task_session (FollowUpReply i text_in) = i"

text \<open>
  A pending timer fires once its delay has passed: it leaves the pending list and its
  callback runs. Nothing else takes a timer off the list (the code never calls
  \<^verbatim>\<open>clearTimeout\<close>).
\<close>

definition fire_timer :: "ai_fault \<Rightarrow> time \<Rightarrow> timer \<Rightarrow> world \<Rightarrow> world" where
  "fire_timer f now t w =
     (if t \<in> set (timers w) \<and> fst t \<le> now
      then run_task f now (snd t) (w\<lparr>timers := remove1 t (timers w)\<rparr>)
      else w)"

section \<open>The routes\<close>

text \<open>
  \<^verbatim>\<open>routes/doubtRoutes.js\<close>: each route runs its guard and then its handler. The user id
  and the role are those \<^verbatim>\<open>auth\<close> put into \<^verbatim>\<open>req.user\<close>.
\<close>

definition initiate_route :: "time \<Rightarrow> object_id \<Rightarrow> string \<Rightarrow> initiate_body \<Rightarrow> world \<Rightarrow> response \<times> world" where
  "initiate_route now userId userRole b w =
     (if userRole = ''student'' then initiateDoubtSession now userId b w
      else ((403, StudentRoleRequired), w))"

definition messages_route :: "object_id \<Rightarrow> string \<Rightarrow> object_id \<Rightarrow> world \<Rightarrow> response \<times> world" where
  "messages_route userId userRole doubtSessionId w =
     (case isParticipantInDoubtSession userId userRole doubtSessionId w of
        Inl r \<Rightarrow> (r, w)
      | Inr req_doubtSession \<Rightarrow> getDoubtSessionMessages doubtSessionId w)"

definition send_route ::
  "time \<Rightarrow> object_id \<Rightarrow> string \<Rightarrow> object_id \<Rightarrow> string option \<Rightarrow> string option \<Rightarrow> world \<Rightarrow>
   response \<times> world" where
  "send_route now userId userRole doubtSessionId text_in att w =
     (case isParticipantInDoubtSession userId userRole doubtSessionId w of
        Inl r \<Rightarrow> (r, w)
      | Inr req_doubtSession \<Rightarrow> sendDoubtMessage now userId userRole text_in att req_doubtSession w)"

definition close_route :: "time \<Rightarrow> object_id \<Rightarrow> string \<Rightarrow> object_id \<Rightarrow> world \<Rightarrow> response \<times> world" where
  "close_route now userId userRole doubtSessionId w =
     (case isParticipantInDoubtSession userId userRole doubtSessionId w of
        Inl r \<Rightarrow> (r, w)
      | Inr req_doubtSession \<Rightarrow> closeDoubtSession now userId userRole req_doubtSession w)"

text \<open>A request with the time it is handled at, and what happens to the stored state.\<close>

datatype request =
    InitiateReq time object_id string initiate_body
  | MessagesReq object_id string object_id
  | SendReq time object_id string object_id "string option" "string option"
  | CloseReq time object_id string object_id

fun handle :: "request \<Rightarrow> world \<Rightarrow> response \<times> world" where
  "handle (InitiateReq now userId userRole b) w = initiate_route now userId userRole b w"
| "handle (MessagesReq userId userRole i) w = messages_route userId userRole i w"
| "handle (SendReq now userId userRole i text_in att) w = send_route now userId userRole i text_in att w"
| "handle (CloseReq now userId userRole i) w = close_route now userId userRole i w"

text \<open>What can happen to the system: a request is handled, or a pending timer fires.\<close>

datatype event = Request request | TimerFires ai_fault time timer

fun step :: "event \<Rightarrow> world \<Rightarrow> world" where
  "step (Request r) w = snd (handle r w)"
| "step (TimerFires f now t) w = fire_timer f now t w"

fun run :: "event list \<Rightarrow> world \<Rightarrow> world" where
  "run [] w = w"
| "run (e # es) w = run es (step e w)"

section \<open>Example data\<close>

text \<open>
  A small school: the student Alice (id 1) of the school Lakeside, the trainer Bob
  (id 2), one Session document with the topics 20 and 21, and a trainer session (id 30)
  and an AI session (id 31) of Alice in a given status.
\<close>

definition alice :: user where
  "alice = \<lparr>user_name = ''Alice'', user_role = ''student'', user_school = Some ''Lakeside'',
            user_grade = Some 7\<rparr>"

definition bob :: user where
  "bob = \<lparr>user_name = ''Bob'', user_role = ''trainer'', user_school = None, user_grade = None\<rparr>"

definition demo_trainer_session :: "status \<Rightarrow> doubt_session" where
  "demo_trainer_session s =
     \<lparr>sid = 30, student = 1, trainer = Some 2, grade = 7, school = 10, session = Some 20,
      initialDoubtText = ''Why?'', doubtType = TrainerDoubt, status = s, lastMessageAt = 5,
      updatedAt = 5\<rparr>"

definition demo_ai_session :: "status \<Rightarrow> doubt_session" where
  "demo_ai_session s =
     \<lparr>sid = 31, student = 1, trainer = None, grade = 7, school = 10, session = None,
      initialDoubtText = ''Why?'', doubtType = AiDoubt, status = s, lastMessageAt = 5,
      updatedAt = 5\<rparr>"

definition demo_world :: "doubt_session list \<Rightarrow> world" where
  "demo_world ds =
     \<lparr>users = [(1, alice), (2, bob)], schools = [(''Lakeside'', 10)], sessionDocs = [[20, 21]],
      doubtSessions = ds, chatMessages = [], timers = [], nextId = 100\<rparr>"

text \<open>Two initiate requests of Alice: a trainer doubt for Bob on topic 20, and an AI doubt.\<close>

definition demo_trainer_body :: initiate_body where
  "demo_trainer_body =
     \<lparr>req_doubtType = Some ''trainer'', req_trainerId = Some 2, req_sessionId = Some 20,
      req_initialDoubtText = Some ''What is photosynthesis?'', req_attachmentUrl = None\<rparr>"

definition demo_ai_body :: initiate_body where
  "demo_ai_body =
     \<lparr>req_doubtType = Some ''ai'', req_trainerId = None, req_sessionId = None,
      req_initialDoubtText = Some ''What is photosynthesis?'', req_attachmentUrl = None\<rparr>"

text \<open>The timer of an answer to Alice's follow-up on her AI session, due at 3050.\<close>

definition demo_followup_timer :: timer where
  "demo_followup_timer = (3050, FollowUpReply 31 (Some ''more?''))"

section \<open>Basic facts\<close>

lemma status_str_filter: "status_str s \<in> set [''pending'', ''open''] \<longleftrightarrow> s = Pending"
  by (cases s) simp_all

lemma find_session_sid: "find_session w i = Some d \<Longrightarrow> sid d = i"
  by (auto simp: find_session_def find_Some_iff)

lemma find_map_update:
  assumes "\<And>x. sid (f x) = sid x"
  shows "find (\<lambda>d. sid d = j) (map (\<lambda>d. if sid d = i then f d else d) xs) =
         (if j = i then map_option f (find (\<lambda>d. sid d = j) xs) else find (\<lambda>d. sid d = j) xs)"
  using assms by (induction xs) auto

lemma find_session_update:
  assumes "\<And>x. sid (f x) = sid x"
  shows "find_session (update_session i f w) j =
         (if j = i then map_option f (find_session w j) else find_session w j)"
  unfolding find_session_def update_session_def using find_map_update [OF assms] by simp

lemma update_session_other [simp]:
  "chatMessages (update_session i f w) = chatMessages w"
  "timers (update_session i f w) = timers w"
  "users (update_session i f w) = users w"
  "schools (update_session i f w) = schools w"
  "sessionDocs (update_session i f w) = sessionDocs w"
  "nextId (update_session i f w) = nextId w"
  by (simp_all add: update_session_def)

section \<open>The trainer's list\<close>

text \<open>
  C10. The trainer's list holds exactly the stored sessions assigned to that trainer
  whose status is \<^verbatim>\<open>pending\<close>: the second string of the filter, \<^verbatim>\<open>open\<close>, is the
  string of no status, so no session in another status (\<^verbatim>\<open>in_progress\<close> among them)
  is ever listed.
\<close>

theorem trainer_listing_only_pending:
  "set (getTrainerDoubtSessions trainerId w) =
     {d \<in> set (doubtSessions w). trainer d = Some trainerId \<and> status d = Pending} \<and>
   filter (\<lambda>d. status d \<noteq> Pending) (getTrainerDoubtSessions trainerId w) = []"
proof -
  have eq: "set (getTrainerDoubtSessions trainerId w) =
     {d \<in> set (doubtSessions w). trainer d = Some trainerId \<and> status d = Pending}"
    unfolding getTrainerDoubtSessions_def using status_str_filter by auto
  then have "filter (\<lambda>d. status d \<noteq> Pending) (getTrainerDoubtSessions trainerId w) = []"
    by (auto simp: filter_empty_conv)
  with eq show ?thesis by simp
qed

section \<open>Closing a session\<close>

lemma admin_passes_guard:
  "isParticipantInDoubtSession userId ''admin'' doubtSessionId w = Inr None"
  by (simp add: isParticipantInDoubtSession_def)

lemma admin_read_is_served:
  "messages_route userId ''admin'' doubtSessionId w = getDoubtSessionMessages doubtSessionId w"
  by (simp add: messages_route_def admin_passes_guard)

lemma admin_send_is_refused:
  "snd (send_route now userId ''admin'' doubtSessionId text_in att w) = w \<and>
   fst (fst (send_route now userId ''admin'' doubtSessionId text_in att w)) \<in> {400, 500}"
  by (simp add: send_route_def admin_passes_guard sendDoubtMessage_def)

text \<open>
  C3. An admin passes the guard, but the guard has not loaded the session for them:
  whatever the session, the close route answers 500 and stores nothing. So an admin
  (here user 9) closing the pending session 30 does not close it: it stays
  \<^verbatim>\<open>pending\<close>.
\<close>

theorem admin_close_is_server_error:
  "close_route now userId ''admin'' doubtSessionId w = ((500, ServerError), w) \<and>
   find_session (snd (close_route 50 9 ''admin'' 30 (demo_world [demo_trainer_session Pending]))) 30 =
     Some (demo_trainer_session Pending)"
  by (simp add: close_route_def isParticipantInDoubtSession_def closeDoubtSession_def
      find_session_def demo_world_def demo_trainer_session_def)

text \<open>
  C2, as stated, fails on a resolved session: the student who owns the resolved
  session 30 is refused with 400 and the session stays resolved.
\<close>

theorem close_resolved_refused:
  "close_route 50 1 ''student'' 30 (demo_world [demo_trainer_session Resolved]) =
     ((400, AlreadyClosedResolvedOrCancelled), demo_world [demo_trainer_session Resolved])"
  by (simp add: close_route_def isParticipantInDoubtSession_def closeDoubtSession_def
      find_session_def demo_world_def demo_trainer_session_def)

text \<open>
  C2, amended. When the owning student or the assigned trainer (not in the admin role)
  closes a session: in status \<^verbatim>\<open>pending\<close> or \<^verbatim>\<open>in_progress\<close> the route answers 200, the
  stored session gets status \<^verbatim>\<open>closed\<close> and no message is added; in status \<^verbatim>\<open>resolved\<close>,
  \<^verbatim>\<open>closed\<close> or \<^verbatim>\<open>cancelled\<close> the route answers 400 and nothing stored changes.
\<close>

theorem close_by_participant:
  assumes "find_session w i = Some d"
    and "userRole \<noteq> ''admin''"
    and "student d = userId \<or> trainer d = Some userId"
  shows "(status d = Pending \<or> status d = In_progress \<longrightarrow>
            fst (close_route now userId userRole i w) = (200, ClosedSuccessfully) \<and>
            find_session (snd (close_route now userId userRole i w)) i =
              Some (d\<lparr>status := Closed, updatedAt := now\<rparr>) \<and>
            chatMessages (snd (close_route now userId userRole i w)) = chatMessages w) \<and>
         (status d = Resolved \<or> status d = Closed \<or> status d = Cancelled \<longrightarrow>
            close_route now userId userRole i w = ((400, AlreadyClosedResolvedOrCancelled), w))"
proof -
  have guard: "isParticipantInDoubtSession userId userRole i w = Inr (Some d)"
    using assms by (auto simp: isParticipantInDoubtSession_def)
  have i: "sid d = i" using assms(1) by (rule find_session_sid)
  show ?thesis
    using assms i
    by (cases "status d")
       (auto simp: close_route_def guard closeDoubtSession_def find_session_update)
qed

theorem close_by_participant_witness:
  "fst (close_route 50 1 ''student'' 30 (demo_world [demo_trainer_session Pending])) =
     (200, ClosedSuccessfully) \<and>
   find_session (snd (close_route 50 1 ''student'' 30 (demo_world [demo_trainer_session Pending]))) 30 =
     Some ((demo_trainer_session Pending)\<lparr>status := Closed, updatedAt := 50\<rparr>) \<and>
   close_route 60 2 ''trainer'' 30 (demo_world [demo_trainer_session Cancelled]) =
     ((400, AlreadyClosedResolvedOrCancelled), demo_world [demo_trainer_session Cancelled])"
proof -
  have f1: "find_session (demo_world [demo_trainer_session Pending]) 30 =
      Some (demo_trainer_session Pending)"
    by (simp add: find_session_def demo_world_def demo_trainer_session_def)
  have f2: "find_session (demo_world [demo_trainer_session Cancelled]) 30 =
      Some (demo_trainer_session Cancelled)"
    by (simp add: find_session_def demo_world_def demo_trainer_session_def)
  have r1: "''student'' \<noteq> ''admin''" and r2: "''trainer'' \<noteq> ''admin''" by simp_all
  have p1: "student (demo_trainer_session Pending) = 1 \<or>
      trainer (demo_trainer_session Pending) = Some 1"
    by (simp add: demo_trainer_session_def)
  have p2: "student (demo_trainer_session Cancelled) = 2 \<or>
      trainer (demo_trainer_session Cancelled) = Some 2"
    by (simp add: demo_trainer_session_def)
  show ?thesis
    using close_by_participant [OF f1 r1 p1, of 50] close_by_participant [OF f2 r2 p2, of 60]
    by (simp add: demo_trainer_session_def)
qed

section \<open>Sending a message\<close>

lemma guard_participant:
  assumes "find_session w i = Some d" "userRole \<noteq> ''admin''"
    "student d = userId \<or> trainer d = Some userId"
  shows "isParticipantInDoubtSession userId userRole i w = Inr (Some d)"
  using assms by (auto simp: isParticipantInDoubtSession_def)

lemma guard_cases:
  assumes "find_session w i = Some d"
  shows "isParticipantInDoubtSession userId userRole i w = Inr None \<and> userRole = ''admin'' \<or>
         isParticipantInDoubtSession userId userRole i w = Inl (403, NotAuthorized) \<or>
         isParticipantInDoubtSession userId userRole i w = Inr (Some d) \<and> userRole \<noteq> ''admin''"
  using assms by (auto simp: isParticipantInDoubtSession_def)

lemma send_no_session:
  "sendDoubtMessage now userId userRole text_in att None w =
     (if \<not> truthy text_in \<and> \<not> truthy att then ((400, MissingTextOrAttachment), w)
      else ((500, ServerError), w))"
  by (simp add: sendDoubtMessage_def)

lemma send_refused:
  assumes "status d = Resolved \<or> status d = Closed \<or> status d = Cancelled"
    and "\<not> (doubtType d = AiDoubt \<and> userRole = ''student'')"
  shows "sendDoubtMessage now userId userRole text_in att (Some d) w =
     (if \<not> truthy text_in \<and> \<not> truthy att then ((400, MissingTextOrAttachment), w)
      else ((400, CannotSendToClosedOrResolved), w))"
  using assms by (auto simp: sendDoubtMessage_def Let_def)

lemma send_reopen:
  assumes "status d = Resolved \<or> status d = Closed \<or> status d = Cancelled"
    and "doubtType d = AiDoubt" and "truthy text_in \<or> truthy att"
  shows "sendDoubtMessage now userId ''student'' text_in att (Some d) w =
     ((201, MessageSent \<lparr>doubtSession = sid d, sender = Some userId, senderRole = ''student'',
                        messageText = text_in, attachmentUrl = att, createdAt = now\<rparr>),
      (update_session (sid d) (\<lambda>x. x\<lparr>lastMessageAt := now, updatedAt := now\<rparr>)
        ((update_session (sid d)
           (\<lambda>x. x\<lparr>status := In_progress, lastMessageAt := now, updatedAt := now\<rparr>) w)
         \<lparr>chatMessages := chatMessages w @
            [\<lparr>doubtSession = sid d, sender = Some userId, senderRole = ''student'',
              messageText = text_in, attachmentUrl = att, createdAt = now\<rparr>]\<rparr>))
      \<lparr>timers := timers w @ [(now + 3000, FollowUpReply (sid d) text_in)]\<rparr>)"
  using assms
  by (auto simp: sendDoubtMessage_def Let_def save_message_def chatMessage_valid_def)

lemma find_session_fields [simp]:
  "find_session (w\<lparr>chatMessages := ms\<rparr>) i = find_session w i"
  "find_session (w\<lparr>timers := ts\<rparr>) i = find_session w i"
  by (simp_all add: find_session_def)

lemma send_accepted:
  assumes "sendDoubtMessage now userId userRole text_in att (Some d) w = ((201, body), w')"
    and "find_session w (sid d) = Some d"
  shows "(truthy text_in \<or> truthy att) \<and>
         body = MessageSent \<lparr>doubtSession = sid d, sender = Some userId, senderRole = userRole,
                              messageText = text_in, attachmentUrl = att, createdAt = now\<rparr> \<and>
         chatMessages w' = chatMessages w @
           [\<lparr>doubtSession = sid d, sender = Some userId, senderRole = userRole,
             messageText = text_in, attachmentUrl = att, createdAt = now\<rparr>] \<and>
         find_session w' (sid d) =
           Some (d\<lparr>lastMessageAt := now, updatedAt := now,
                   status := (if status d = Pending \<and> userRole \<noteq> ''trainer'' then Pending
                              else In_progress)\<rparr>)"
  using assms
  by (cases "status d")
     (auto simp: sendDoubtMessage_def Let_def save_message_def find_session_update
      split: if_splits option.splits)

lemma send_not_201_without_session:
  "fst (fst (sendDoubtMessage now userId userRole text_in att None w)) \<noteq> 201"
  by (simp add: sendDoubtMessage_def)

text \<open>
  C1, as stated, fails on a closed session: Alice's message to her closed AI session 31
  is accepted (201), stored, and the session is back in \<^verbatim>\<open>in_progress\<close>.
\<close>

theorem reopen_closed_ai_session:
  "fst (send_route 50 1 ''student'' 31 (Some ''again'') None (demo_world [demo_ai_session Closed])) =
     (201, MessageSent \<lparr>doubtSession = 31, sender = Some 1, senderRole = ''student'',
                        messageText = Some ''again'', attachmentUrl = None, createdAt = 50\<rparr>) \<and>
   doubtSessions (snd (send_route 50 1 ''student'' 31 (Some ''again'') None
                         (demo_world [demo_ai_session Closed]))) =
     [(demo_ai_session In_progress)\<lparr>lastMessageAt := 50, updatedAt := 50\<rparr>] \<and>
   chatMessages (snd (send_route 50 1 ''student'' 31 (Some ''again'') None
                        (demo_world [demo_ai_session Closed]))) =
     [\<lparr>doubtSession = 31, sender = Some 1, senderRole = ''student'',
       messageText = Some ''again'', attachmentUrl = None, createdAt = 50\<rparr>]"
  by (simp add: send_route_def isParticipantInDoubtSession_def sendDoubtMessage_def
      find_session_def demo_world_def demo_ai_session_def truthy_def Let_def
      save_message_def chatMessage_valid_def update_session_def)

text \<open>
  C1, amended. For a message sent to a session in status \<^verbatim>\<open>resolved\<close>, \<^verbatim>\<open>closed\<close> or
  \<^verbatim>\<open>cancelled\<close>: unless the session is an AI session and the sender's role is student,
  the route fails (400, 403 or 500) and nothing stored changes, and for a participant
  with a non-empty body the answer is the 400 "cannot send to a closed or resolved
  session"; when the session is an AI session and the sender is its student, the
  message is accepted in each of the three statuses, it is stored, and the session goes
  back to \<^verbatim>\<open>in_progress\<close>.
\<close>

theorem send_to_ended_session:
  assumes "find_session w i = Some d"
    and "status d = Resolved \<or> status d = Closed \<or> status d = Cancelled"
  shows "(\<not> (doubtType d = AiDoubt \<and> userRole = ''student'') \<longrightarrow>
            snd (send_route now userId userRole i text_in att w) = w \<and>
            fst (fst (send_route now userId userRole i text_in att w)) \<in> {400, 403, 500}) \<and>
         (\<not> (doubtType d = AiDoubt \<and> userRole = ''student'') \<and> userRole \<noteq> ''admin'' \<and>
          (student d = userId \<or> trainer d = Some userId) \<and> (truthy text_in \<or> truthy att) \<longrightarrow>
            fst (send_route now userId userRole i text_in att w) =
              (400, CannotSendToClosedOrResolved)) \<and>
         (doubtType d = AiDoubt \<and> userRole = ''student'' \<and>
          (student d = userId \<or> trainer d = Some userId) \<and> (truthy text_in \<or> truthy att) \<longrightarrow>
            fst (send_route now userId userRole i text_in att w) =
              (201, MessageSent \<lparr>doubtSession = i, sender = Some userId, senderRole = ''student'',
                                 messageText = text_in, attachmentUrl = att, createdAt = now\<rparr>) \<and>
            chatMessages (snd (send_route now userId userRole i text_in att w)) =
              chatMessages w @
              [\<lparr>doubtSession = i, sender = Some userId, senderRole = ''student'',
                messageText = text_in, attachmentUrl = att, createdAt = now\<rparr>] \<and>
            find_session (snd (send_route now userId userRole i text_in att w)) i =
              Some (d\<lparr>status := In_progress, lastMessageAt := now, updatedAt := now\<rparr>))"
proof -
  have i: "sid d = i" using assms(1) by (rule find_session_sid)
  have A: "snd (send_route now userId userRole i text_in att w) = w \<and>
           fst (fst (send_route now userId userRole i text_in att w)) \<in> {400, 403, 500}"
    if "\<not> (doubtType d = AiDoubt \<and> userRole = ''student'')"
    using guard_cases [OF assms(1), of userId userRole] that assms(2)
    by (auto simp: send_route_def send_no_session send_refused split: if_splits)
  have B: "fst (send_route now userId userRole i text_in att w) = (400, CannotSendToClosedOrResolved)"
    if "\<not> (doubtType d = AiDoubt \<and> userRole = ''student'')" "userRole \<noteq> ''admin''"
       "student d = userId \<or> trainer d = Some userId" "truthy text_in \<or> truthy att"
    using guard_participant [OF assms(1) that(2) that(3)] that(1,4) assms(2)
    by (auto simp: send_route_def send_refused split: if_splits)
  have C: "fst (send_route now userId userRole i text_in att w) =
              (201, MessageSent \<lparr>doubtSession = i, sender = Some userId, senderRole = ''student'',
                                 messageText = text_in, attachmentUrl = att, createdAt = now\<rparr>) \<and>
            chatMessages (snd (send_route now userId userRole i text_in att w)) =
              chatMessages w @
              [\<lparr>doubtSession = i, sender = Some userId, senderRole = ''student'',
                messageText = text_in, attachmentUrl = att, createdAt = now\<rparr>] \<and>
            find_session (snd (send_route now userId userRole i text_in att w)) i =
              Some (d\<lparr>status := In_progress, lastMessageAt := now, updatedAt := now\<rparr>)"
    if "doubtType d = AiDoubt" "userRole = ''student''"
       "student d = userId \<or> trainer d = Some userId" "truthy text_in \<or> truthy att"
  proof -
    have r: "''student'' \<noteq> ''admin''" by simp
    have g: "isParticipantInDoubtSession userId ''student'' i w = Inr (Some d)"
      by (rule guard_participant [OF assms(1) r that(3)])
    show ?thesis
      unfolding that(2)
      using i assms(1)
      by (simp add: send_route_def g send_reopen [OF assms(2) that(1) that(4)]
          find_session_update)
  qed
  from A B C show ?thesis by blast
qed

theorem send_to_ended_session_witness:
  "fst (send_route 50 1 ''student'' 31 (Some ''again'') None (demo_world [demo_ai_session Resolved])) =
     (201, MessageSent \<lparr>doubtSession = 31, sender = Some 1, senderRole = ''student'',
                        messageText = Some ''again'', attachmentUrl = None, createdAt = 50\<rparr>) \<and>
   find_session (snd (send_route 50 1 ''student'' 31 (Some ''again'') None
                        (demo_world [demo_ai_session Resolved]))) 31 =
     Some ((demo_ai_session Resolved)\<lparr>status := In_progress, lastMessageAt := 50, updatedAt := 50\<rparr>) \<and>
   fst (send_route 50 1 ''student'' 30 (Some ''again'') None (demo_world [demo_trainer_session Closed])) =
     (400, CannotSendToClosedOrResolved) \<and>
   snd (send_route 50 1 ''student'' 30 (Some ''again'') None (demo_world [demo_trainer_session Closed])) =
     demo_world [demo_trainer_session Closed]"
proof -
  have f1: "find_session (demo_world [demo_ai_session Resolved]) 31 = Some (demo_ai_session Resolved)"
    by (simp add: find_session_def demo_world_def demo_ai_session_def)
  have s1: "status (demo_ai_session Resolved) = Resolved \<or> status (demo_ai_session Resolved) = Closed \<or>
      status (demo_ai_session Resolved) = Cancelled"
    by (simp add: demo_ai_session_def)
  have f2: "find_session (demo_world [demo_trainer_session Closed]) 30 =
      Some (demo_trainer_session Closed)"
    by (simp add: find_session_def demo_world_def demo_trainer_session_def)
  have s2: "status (demo_trainer_session Closed) = Resolved \<or>
      status (demo_trainer_session Closed) = Closed \<or> status (demo_trainer_session Closed) = Cancelled"
    by (simp add: demo_trainer_session_def)
  have a: "doubtType (demo_ai_session Resolved) = AiDoubt" "student (demo_ai_session Resolved) = 1"
    by (simp_all add: demo_ai_session_def)
  have b: "doubtType (demo_trainer_session Closed) = TrainerDoubt"
    "student (demo_trainer_session Closed) = 1"
    by (simp_all add: demo_trainer_session_def)
  have t: "truthy (Some ''again'')" by (simp add: truthy_def)
  show ?thesis
    using send_to_ended_session [OF f1 s1, where userRole = "''student''" and userId = 1
        and text_in = "Some ''again''" and att = None and now = 50]
      send_to_ended_session [OF f2 s2, where userRole = "''student''" and userId = 1
        and text_in = "Some ''again''" and att = None and now = 50]
    by (simp add: a b t)
qed

text \<open>
  C8. When the send route answers 201 for a stored session: the message of the request
  is appended to the stored messages, the session's \<open>lastMessageAt\<close> is the time of the
  request, and its status is \<^verbatim>\<open>pending\<close> if it was \<^verbatim>\<open>pending\<close> and the sender's role is
  not trainer, and \<^verbatim>\<open>in_progress\<close> otherwise. So a trainer's message moves \<^verbatim>\<open>pending\<close>
  to \<^verbatim>\<open>in_progress\<close>, and a message of any other role leaves \<^verbatim>\<open>pending\<close> as it is.
\<close>

theorem send_success:
  assumes "find_session w i = Some d"
    and "send_route now userId userRole i text_in att w = ((201, body), w')"
  shows "body = MessageSent \<lparr>doubtSession = i, sender = Some userId, senderRole = userRole,
                              messageText = text_in, attachmentUrl = att, createdAt = now\<rparr> \<and>
         chatMessages w' = chatMessages w @
           [\<lparr>doubtSession = i, sender = Some userId, senderRole = userRole,
             messageText = text_in, attachmentUrl = att, createdAt = now\<rparr>] \<and>
         find_session w' i =
           Some (d\<lparr>lastMessageAt := now, updatedAt := now,
                   status := (if status d = Pending \<and> userRole \<noteq> ''trainer'' then Pending
                              else In_progress)\<rparr>) \<and>
         (status d = Pending \<and> userRole = ''trainer'' \<longrightarrow>
            map_option status (find_session w' i) = Some In_progress) \<and>
         (status d = Pending \<and> userRole \<noteq> ''trainer'' \<longrightarrow>
            map_option status (find_session w' i) = Some Pending)"
proof -
  have i: "sid d = i" using assms(1) by (rule find_session_sid)
  from guard_cases [OF assms(1), of userId userRole]
  have g: "isParticipantInDoubtSession userId userRole i w = Inr (Some d)"
    using assms(2) send_not_201_without_session [of now userId userRole text_in att w]
    by (auto simp: send_route_def)
  then have s: "sendDoubtMessage now userId userRole text_in att (Some d) w = ((201, body), w')"
    using assms(2) by (simp add: send_route_def)
  from send_accepted [OF s] assms(1) i show ?thesis by simp
qed

theorem send_success_witness:
  "fst (send_route 50 2 ''trainer'' 30 (Some ''Because'') None
          (demo_world [demo_trainer_session Pending])) =
     (201, MessageSent \<lparr>doubtSession = 30, sender = Some 2, senderRole = ''trainer'',
                        messageText = Some ''Because'', attachmentUrl = None, createdAt = 50\<rparr>) \<and>
   find_session (snd (send_route 50 2 ''trainer'' 30 (Some ''Because'') None
                        (demo_world [demo_trainer_session Pending]))) 30 =
     Some ((demo_trainer_session In_progress)\<lparr>lastMessageAt := 50, updatedAt := 50\<rparr>) \<and>
   find_session (snd (send_route 60 1 ''student'' 30 (Some ''Hello?'') None
                        (demo_world [demo_trainer_session Pending]))) 30 =
     Some ((demo_trainer_session Pending)\<lparr>lastMessageAt := 60, updatedAt := 60\<rparr>)"
proof -
  let ?w = "demo_world [demo_trainer_session Pending]"
  have f: "find_session ?w 30 = Some (demo_trainer_session Pending)"
    by (simp add: find_session_def demo_world_def demo_trainer_session_def)
  have c1: "fst (send_route 50 2 ''trainer'' 30 (Some ''Because'') None ?w) =
     (201, MessageSent \<lparr>doubtSession = 30, sender = Some 2, senderRole = ''trainer'',
                        messageText = Some ''Because'', attachmentUrl = None, createdAt = 50\<rparr>)"
    by (simp add: send_route_def isParticipantInDoubtSession_def sendDoubtMessage_def
      find_session_def demo_world_def demo_trainer_session_def truthy_def Let_def
      save_message_def chatMessage_valid_def)
  have c2: "fst (send_route 60 1 ''student'' 30 (Some ''Hello?'') None ?w) =
     (201, MessageSent \<lparr>doubtSession = 30, sender = Some 1, senderRole = ''student'',
                        messageText = Some ''Hello?'', attachmentUrl = None, createdAt = 60\<rparr>)"
    by (simp add: send_route_def isParticipantInDoubtSession_def sendDoubtMessage_def
      find_session_def demo_world_def demo_trainer_session_def truthy_def Let_def
      save_message_def chatMessage_valid_def)
  have e1: "send_route 50 2 ''trainer'' 30 (Some ''Because'') None ?w =
     ((201, MessageSent \<lparr>doubtSession = 30, sender = Some 2, senderRole = ''trainer'',
                         messageText = Some ''Because'', attachmentUrl = None, createdAt = 50\<rparr>),
      snd (send_route 50 2 ''trainer'' 30 (Some ''Because'') None ?w))"
    using c1 by (simp add: prod_eq_iff)
  have e2: "send_route 60 1 ''student'' 30 (Some ''Hello?'') None ?w =
     ((201, MessageSent \<lparr>doubtSession = 30, sender = Some 1, senderRole = ''student'',
                         messageText = Some ''Hello?'', attachmentUrl = None, createdAt = 60\<rparr>),
      snd (send_route 60 1 ''student'' 30 (Some ''Hello?'') None ?w))"
    using c2 by (simp add: prod_eq_iff)
  show ?thesis
    using send_success [OF f e1] send_success [OF f e2] c1
    by (simp add: demo_trainer_session_def)
qed

section \<open>Initiating a session\<close>

lemma truthy_Some: "truthy v \<longleftrightarrow> (\<exists>s. v = Some s \<and> s \<noteq> [])"
  by (cases v) (simp_all add: truthy_def)

lemma create_session_Some:
  assumes "create_session now studentId st sch txt ty tr topic s0 w = Some (d, w1)"
  shows "w1 = w\<lparr>doubtSessions := doubtSessions w @ [d], nextId := Suc (nextId w)\<rparr> \<and>
         student d = studentId \<and> doubtType d = ty \<and> status d = s0 \<and> trainer d = tr \<and>
         session d = topic \<and> sid d = nextId w"
  using assms by (auto simp: create_session_def Let_def split: option.splits if_splits)

lemma save_message_Some:
  assumes "save_message m w = Some w'"
  shows "w' = w\<lparr>chatMessages := chatMessages w @ [m]\<rparr> \<and> chatMessage_valid m"
  using assms by (auto simp: save_message_def split: if_splits)

lemma initiate_trainer_success:
  assumes "initiate_trainer now studentId st sch txt trainerId sessionId att w = ((201, body), w')"
  shows "\<exists>d. doubtSessions w' = doubtSessions w @ [d] \<and> student d = studentId \<and>
           chatMessages w' = chatMessages w @ [initial_message now (sid d) studentId txt att] \<and>
           doubtType d = TrainerDoubt \<and> status d = Pending \<and> trainer d = trainerId \<and>
           session d = sessionId \<and> trainerId \<noteq> None \<and> sessionId \<noteq> None \<and>
           body = InitiatedWithTrainer (sid d) \<and> timers w' = timers w"
  using assms
  by (auto simp: initiate_trainer_def split: option.splits if_splits prod.splits
      dest!: create_session_Some save_message_Some)

lemma initiate_ai_success:
  assumes "initiate_ai now studentId st sch txt att w = ((201, body), w')"
  shows "\<exists>d. doubtSessions w' = doubtSessions w @ [d] \<and> student d = studentId \<and>
           chatMessages w' = chatMessages w @ [initial_message now (sid d) studentId txt att] \<and>
           doubtType d = AiDoubt \<and> status d = In_progress \<and> trainer d = None \<and>
           body = InitiatedWithAi (sid d) \<and>
           timers w' = timers w @ [(now + 5000, InitialReply (sid d) (user_name st) txt)]"
  using assms
  by (auto simp: initiate_ai_def split: option.splits if_splits prod.splits
      dest!: create_session_Some save_message_Some)

text \<open>
  C7. When \<^verbatim>\<open>initiateDoubtSession\<close> answers 201: exactly one session is added, owned by
  the initiating student, and exactly one message is added, whose sender is that
  student, whose role is \<^verbatim>\<open>student\<close> and whose text is the initial text; the session is
  a trainer session in status \<^verbatim>\<open>pending\<close> for the doubt type \<^verbatim>\<open>trainer\<close>, and an AI
  session in status \<^verbatim>\<open>in_progress\<close> for the doubt type \<^verbatim>\<open>ai\<close>.
\<close>

theorem initiate_success:
  assumes "initiateDoubtSession now studentId b w = ((201, body), w')"
  shows "\<exists>d. doubtSessions w' = doubtSessions w @ [d] \<and> student d = studentId \<and>
           chatMessages w' = chatMessages w @
             [\<lparr>doubtSession = sid d, sender = Some studentId, senderRole = ''student'',
               messageText = req_initialDoubtText b, attachmentUrl = req_attachmentUrl b,
               createdAt = now\<rparr>] \<and>
           (req_doubtType b = Some ''trainer'' \<and> doubtType d = TrainerDoubt \<and> status d = Pending \<and>
              body = InitiatedWithTrainer (sid d) \<or>
            req_doubtType b = Some ''ai'' \<and> doubtType d = AiDoubt \<and> status d = In_progress \<and>
              body = InitiatedWithAi (sid d))"
proof -
  from assms have t: "truthy (req_initialDoubtText b)"
    by (auto simp: initiateDoubtSession_def split: if_splits)
  then obtain x where x: "req_initialDoubtText b = Some x" by (auto simp: truthy_Some)
  from assms consider
    (tr) st sch where "req_doubtType b = Some ''trainer''"
      "initiate_trainer now studentId st sch x (req_trainerId b) (req_sessionId b)
         (req_attachmentUrl b) w = ((201, body), w')"
    | (ai) st sch where "req_doubtType b = Some ''ai''"
      "initiate_ai now studentId st sch x (req_attachmentUrl b) w = ((201, body), w')"
    by (auto simp: initiateDoubtSession_def x js_string_def split: if_splits option.splits)
  then show ?thesis
  proof cases
    case tr
    from initiate_trainer_success [OF tr(2)] tr(1) show ?thesis
      by (auto simp: initial_message_def x)
  next
    case ai
    from initiate_ai_success [OF ai(2)] ai(1) show ?thesis
      by (auto simp: initial_message_def x)
  qed
qed


theorem initiate_success_witness:
  "fst (initiateDoubtSession 50 1 demo_trainer_body (demo_world [])) = (201, InitiatedWithTrainer 100) \<and>
   map status (doubtSessions (snd (initiateDoubtSession 50 1 demo_trainer_body (demo_world [])))) =
     [Pending] \<and>
   fst (initiateDoubtSession 50 1 demo_ai_body (demo_world [])) = (201, InitiatedWithAi 100) \<and>
   map status (doubtSessions (snd (initiateDoubtSession 50 1 demo_ai_body (demo_world [])))) =
     [In_progress] \<and>
   chatMessages (snd (initiateDoubtSession 50 1 demo_ai_body (demo_world []))) =
     [\<lparr>doubtSession = 100, sender = Some 1, senderRole = ''student'',
       messageText = Some ''What is photosynthesis?'', attachmentUrl = None, createdAt = 50\<rparr>]"
proof -
  have trim: "js_trim ''What is photosynthesis?'' = ''What is photosynthesis?''"
    by (simp add: js_trim_def is_space_def)
  have c1: "fst (initiateDoubtSession 50 1 demo_trainer_body (demo_world [])) =
      (201, InitiatedWithTrainer 100)"
    by (simp add: initiateDoubtSession_def initiate_trainer_def demo_trainer_body_def
        demo_world_def alice_def bob_def truthy_def js_string_def find_user_def find_school_def
        find_session_doc_def create_session_def trim Let_def save_message_def
        chatMessage_valid_def initial_message_def)
  have c2: "fst (initiateDoubtSession 50 1 demo_ai_body (demo_world [])) =
      (201, InitiatedWithAi 100)"
    by (simp add: initiateDoubtSession_def initiate_ai_def demo_ai_body_def
        demo_world_def alice_def bob_def truthy_def js_string_def find_user_def find_school_def
        create_session_def trim Let_def save_message_def
        chatMessage_valid_def initial_message_def)
  have e1: "initiateDoubtSession 50 1 demo_trainer_body (demo_world []) =
      ((201, InitiatedWithTrainer 100),
       snd (initiateDoubtSession 50 1 demo_trainer_body (demo_world [])))"
    using c1 by (simp add: prod_eq_iff)
  have e2: "initiateDoubtSession 50 1 demo_ai_body (demo_world []) =
      ((201, InitiatedWithAi 100), snd (initiateDoubtSession 50 1 demo_ai_body (demo_world [])))"
    using c2 by (simp add: prod_eq_iff)
  have b: "req_doubtType demo_trainer_body = Some ''trainer''" "req_doubtType demo_ai_body = Some ''ai''"
    "req_initialDoubtText demo_ai_body = Some ''What is photosynthesis?''"
    "req_attachmentUrl demo_ai_body = None"
    by (simp_all add: demo_trainer_body_def demo_ai_body_def)
  have n: "doubtSessions (demo_world []) = []" "chatMessages (demo_world []) = []"
    by (simp_all add: demo_world_def)
  show ?thesis
    using initiate_success [OF e1] initiate_success [OF e2] c1 c2
    by (auto simp: b n)
qed

lemma initiate_trainer_bad_reference:
  assumes "\<not> (\<exists>tr. find_user w tid = Some tr \<and> user_role tr = ''trainer'') \<or>
           find_session_doc w topic = None"
  shows "initiate_trainer now studentId st sch x (Some tid) (Some topic) att w =
     ((400, if \<exists>tr. find_user w tid = Some tr \<and> user_role tr = ''trainer''
            then InvalidSession else InvalidTrainer), w)"
  using assms by (auto simp: initiate_trainer_def split: option.splits)

text \<open>
  C6. When the school name in the initiator's profile resolves to no School document,
  \<^verbatim>\<open>initiateDoubtSession\<close> fails with 400 and stores nothing, and once the body check
  has passed the answer is the "school could not be found" one. When a trainer doubt
  names a trainer that does not exist or whose role is not \<^verbatim>\<open>trainer\<close>, or a topic id
  found in no Session document, it fails (400 or 404) and stores nothing, and once the
  body, the student and the school have passed the answer is 400 "invalid trainer",
  or 400 "invalid session" when only the topic is wrong.
\<close>

theorem initiate_failures_store_nothing:
  "(find_user w studentId = Some st \<and> user_school st = Some nm \<and> nm \<noteq> [] \<and>
    find_school w nm = None \<longrightarrow>
      snd (initiateDoubtSession now studentId b w) = w \<and>
      fst (fst (initiateDoubtSession now studentId b w)) = 400 \<and>
      (truthy (req_doubtType b) \<and> truthy (req_initialDoubtText b) \<longrightarrow>
         fst (initiateDoubtSession now studentId b w) = (400, SchoolNotFound))) \<and>
   (req_doubtType b = Some ''trainer'' \<and> req_trainerId b = Some tid \<and> req_sessionId b = Some topic \<and>
    (\<not> (\<exists>tr. find_user w tid = Some tr \<and> user_role tr = ''trainer'') \<or>
     find_session_doc w topic = None) \<longrightarrow>
      snd (initiateDoubtSession now studentId b w) = w \<and>
      fst (fst (initiateDoubtSession now studentId b w)) \<in> {400, 404} \<and>
      (truthy (req_initialDoubtText b) \<and> find_user w studentId = Some st \<and>
       user_school st = Some nm \<and> nm \<noteq> [] \<and> find_school w nm \<noteq> None \<longrightarrow>
         fst (initiateDoubtSession now studentId b w) =
           (400, if \<exists>tr. find_user w tid = Some tr \<and> user_role tr = ''trainer''
                 then InvalidSession else InvalidTrainer)))"
proof -
  have A: "snd (initiateDoubtSession now studentId b w) = w \<and>
      fst (fst (initiateDoubtSession now studentId b w)) = 400 \<and>
      (truthy (req_doubtType b) \<and> truthy (req_initialDoubtText b) \<longrightarrow>
         fst (initiateDoubtSession now studentId b w) = (400, SchoolNotFound))"
    if "find_user w studentId = Some st" "user_school st = Some nm" "nm \<noteq> []"
       "find_school w nm = None"
    using that by (simp add: initiateDoubtSession_def truthy_def js_string_def)
  have B: "snd (initiateDoubtSession now studentId b w) = w \<and>
      fst (fst (initiateDoubtSession now studentId b w)) \<in> {400, 404} \<and>
      (truthy (req_initialDoubtText b) \<and> find_user w studentId = Some st \<and>
       user_school st = Some nm \<and> nm \<noteq> [] \<and> find_school w nm \<noteq> None \<longrightarrow>
         fst (initiateDoubtSession now studentId b w) =
           (400, if \<exists>tr. find_user w tid = Some tr \<and> user_role tr = ''trainer''
                 then InvalidSession else InvalidTrainer))"
    if b: "req_doubtType b = Some ''trainer''" "req_trainerId b = Some tid"
       "req_sessionId b = Some topic"
      and bad: "\<not> (\<exists>tr. find_user w tid = Some tr \<and> user_role tr = ''trainer'') \<or>
          find_session_doc w topic = None"
    using b
    by (auto simp: initiateDoubtSession_def initiate_trainer_bad_reference [OF bad]
        js_string_def truthy_Some split: option.splits)
  from A B show ?thesis by blast
qed


theorem initiate_failures_store_nothing_witness:
  "initiateDoubtSession 50 1 demo_trainer_body ((demo_world [])\<lparr>schools := []\<rparr>) =
     ((400, SchoolNotFound), (demo_world [])\<lparr>schools := []\<rparr>) \<and>
   initiateDoubtSession 50 1 (demo_trainer_body\<lparr>req_trainerId := Some 1\<rparr>) (demo_world []) =
     ((400, InvalidTrainer), demo_world []) \<and>
   initiateDoubtSession 50 1 (demo_trainer_body\<lparr>req_sessionId := Some 99\<rparr>) (demo_world []) =
     ((400, InvalidSession), demo_world [])"
proof -
  show ?thesis
    using initiate_failures_store_nothing [where w = "(demo_world [])\<lparr>schools := []\<rparr>"
        and studentId = 1 and st = alice and nm = "''Lakeside''" and now = 50
        and b = demo_trainer_body and tid = 2 and topic = 20]
      initiate_failures_store_nothing [where w = "demo_world []"
        and studentId = 1 and st = alice and nm = "''Lakeside''" and now = 50
        and b = "demo_trainer_body\<lparr>req_trainerId := Some 1\<rparr>" and tid = 1 and topic = 20]
      initiate_failures_store_nothing [where w = "demo_world []"
        and studentId = 1 and st = alice and nm = "''Lakeside''" and now = 50
        and b = "demo_trainer_body\<lparr>req_sessionId := Some 99\<rparr>" and tid = 2 and topic = 99]
    by (simp add: find_user_def find_school_def find_session_doc_def demo_world_def alice_def
        bob_def demo_trainer_body_def truthy_def prod_eq_iff)
qed

section \<open>What a stored message holds\<close>

lemma ai_text_nonempty [simp]:
  "ai_initial_text student_name x \<noteq> []" "ai_followup_text text_in \<noteq> []"
  by (simp_all add: ai_initial_text_def ai_followup_text_def)

lemma valid_has_content:
  "chatMessage_valid m \<Longrightarrow> truthy (messageText m) \<or> truthy (attachmentUrl m)"
  by (auto simp: chatMessage_valid_def split: if_splits)

lemma create_session_messages:
  "create_session now studentId st sch x ty tr topic s0 w = Some (d, w1) \<Longrightarrow>
   chatMessages w1 = chatMessages w"
  by (auto dest!: create_session_Some)

lemma initiate_messages:
  assumes "m \<in> set (chatMessages (snd (initiateDoubtSession now studentId b w)))"
  shows "m \<in> set (chatMessages w) \<or> chatMessage_valid m"
  using assms
  by (auto simp: initiateDoubtSession_def initiate_trainer_def initiate_ai_def
      split: if_splits option.splits prod.splits
      dest!: create_session_Some save_message_Some)

lemma send_messages:
  assumes "m \<in> set (chatMessages (snd (sendDoubtMessage now userId userRole text_in att req w)))"
  shows "m \<in> set (chatMessages w) \<or> chatMessage_valid m"
  using assms
  by (auto simp: sendDoubtMessage_def Let_def
      split: if_splits option.splits dest!: save_message_Some)

lemma close_messages:
  "chatMessages (snd (closeDoubtSession now userId userRole req w)) = chatMessages w"
  by (auto simp: closeDoubtSession_def split: option.splits)

lemma handle_messages:
  assumes "m \<in> set (chatMessages (snd (handle r w)))"
  shows "m \<in> set (chatMessages w) \<or> chatMessage_valid m"
proof (cases r)
  case (InitiateReq now userId userRole b)
  with assms initiate_messages show ?thesis
    by (auto simp: initiate_route_def split: if_splits)
next
  case (MessagesReq userId userRole i)
  with assms show ?thesis
    by (auto simp: messages_route_def getDoubtSessionMessages_def split: sum.splits)
next
  case (SendReq now userId userRole i text_in att)
  with assms send_messages show ?thesis
    by (auto simp: send_route_def split: sum.splits)
next
  case (CloseReq now userId userRole i)
  with assms show ?thesis
    by (auto simp: close_route_def close_messages split: sum.splits)
qed

lemma run_task_messages:
  assumes "m \<in> set (chatMessages (run_task f now t w))"
  shows "m \<in> set (chatMessages w) \<or> chatMessage_valid m"
  using assms
  by (cases t)
     (auto simp: initial_reply_def initial_reply_catch_def followup_reply_def
       followup_reply_catch_def split: if_splits option.splits dest!: save_message_Some)

lemma step_messages:
  assumes "m \<in> set (chatMessages (step e w))"
  shows "m \<in> set (chatMessages w) \<or> chatMessage_valid m"
proof (cases e)
  case (Request r)
  with assms handle_messages show ?thesis by auto
next
  case (TimerFires f now t)
  with assms run_task_messages [of m f now "snd t" "w\<lparr>timers := remove1 t (timers w)\<rparr>"]
  show ?thesis by (auto simp: fire_timer_def split: if_splits)
qed

text \<open>
  C4, amended. Whatever requests are handled and timers fire, every stored message has a
  non-empty text or a non-empty attachment URL (at least one of the two), provided the
  messages stored at the start have: a message with both fields empty is never stored.
\<close>

theorem stored_messages_have_content:
  assumes "\<forall>m\<in>set (chatMessages w). truthy (messageText m) \<or> truthy (attachmentUrl m)"
  shows "\<forall>m\<in>set (chatMessages (run es w)). truthy (messageText m) \<or> truthy (attachmentUrl m)"
  using assms
proof (induction es arbitrary: w)
  case Nil
  then show ?case by simp
next
  case (Cons e es)
  have "\<forall>m\<in>set (chatMessages (step e w)). truthy (messageText m) \<or> truthy (attachmentUrl m)"
    using Cons.prems step_messages valid_has_content by blast
  from Cons.IH [OF this] show ?case by simp
qed

text \<open>
  C4, as stated, fails: a message with both a text and an attachment URL is accepted and
  stored. Here Alice sends one to her session 30.
\<close>

theorem message_with_text_and_attachment_stored:
  "chatMessages (run [Request (SendReq 50 1 ''student'' 30 (Some ''see the file'')
                                 (Some ''https://files/a.png''))]
                   (demo_world [demo_trainer_session In_progress])) =
     [\<lparr>doubtSession = 30, sender = Some 1, senderRole = ''student'',
       messageText = Some ''see the file'', attachmentUrl = Some ''https://files/a.png'',
       createdAt = 50\<rparr>] \<and>
   truthy (Some ''see the file'') \<and> truthy (Some ''https://files/a.png'')"
  by (simp add: send_route_def isParticipantInDoubtSession_def sendDoubtMessage_def
      find_session_def demo_world_def demo_trainer_session_def truthy_def Let_def
      save_message_def chatMessage_valid_def update_session_def)

theorem stored_messages_have_content_witness:
  "length (chatMessages (run [Request (InitiateReq 50 1 ''student'' demo_ai_body),
                              TimerFires NoFault 5050 (5050, InitialReply 100 ''Alice'' ''What is photosynthesis?''),
                              Request (SendReq 6000 1 ''student'' 100 None (Some ''https://files/a.png''))]
                        (demo_world []))) = 3 \<and>
   list_all (\<lambda>m. truthy (messageText m) \<or> truthy (attachmentUrl m))
     (chatMessages (run [Request (InitiateReq 50 1 ''student'' demo_ai_body),
                         TimerFires NoFault 5050 (5050, InitialReply 100 ''Alice'' ''What is photosynthesis?''),
                         Request (SendReq 6000 1 ''student'' 100 None (Some ''https://files/a.png''))]
                   (demo_world [])))"
proof -
  let ?es = "[Request (InitiateReq 50 1 ''student'' demo_ai_body),
              TimerFires NoFault 5050 (5050, InitialReply 100 ''Alice'' ''What is photosynthesis?''),
              Request (SendReq 6000 1 ''student'' 100 None (Some ''https://files/a.png''))]"
  have e: "\<forall>m\<in>set (chatMessages (demo_world [])). truthy (messageText m) \<or> truthy (attachmentUrl m)"
    by (simp add: demo_world_def)
  have trim: "js_trim ''What is photosynthesis?'' = ''What is photosynthesis?''"
    by (simp add: js_trim_def is_space_def)
  have n: "length (chatMessages (run ?es (demo_world []))) = 3"
    by (simp add: initiate_route_def initiateDoubtSession_def initiate_ai_def demo_ai_body_def
        demo_world_def alice_def bob_def truthy_def js_string_def find_user_def find_school_def
        create_session_def trim Let_def save_message_def chatMessage_valid_def
        initial_message_def fire_timer_def initial_reply_def ai_message_def update_session_def
        send_route_def isParticipantInDoubtSession_def sendDoubtMessage_def find_session_def)
  have "list_all (\<lambda>m. truthy (messageText m) \<or> truthy (attachmentUrl m))
          (chatMessages (run ?es (demo_world [])))"
    using stored_messages_have_content [OF e, of ?es] unfolding list_all_iff .
  with n show ?thesis by blast
qed

section \<open>What the responder does when it fires\<close>

lemma initial_reply_failure_cancels:
  assumes "f \<noteq> NoFault" and "find_session w i = Some d"
  shows "find_session (initial_reply f now i student_name x w) i =
           Some (d\<lparr>status := Cancelled, lastMessageAt := now, updatedAt := now\<rparr>) \<and>
         last (chatMessages (initial_reply f now i student_name x w)) =
           system_message now i
             ''AI encountered an error. Please try again later or contact a trainer.''"
  using assms find_session_sid [OF assms(2)]
  by (cases f)
     (simp_all add: initial_reply_def initial_reply_catch_def save_message_def
       chatMessage_valid_def system_message_def ai_message_def truthy_def find_session_update)

text \<open>
  C5. The first answer's failure path does what is claimed (lemma above). The follow-up
  answer's does not: when the save of the AI message fails while Alice's AI session 31
  is \<^verbatim>\<open>in_progress\<close>, the system message is stored with no sender, but the session
  stays \<^verbatim>\<open>in_progress\<close>; it is not set to \<^verbatim>\<open>cancelled\<close>.
\<close>

theorem followup_failure_leaves_status:
  "doubtSessions (fire_timer MessageSaveFails 3050 demo_followup_timer
                    ((demo_world [demo_ai_session In_progress])\<lparr>timers := [demo_followup_timer]\<rparr>)) =
     [demo_ai_session In_progress] \<and>
   chatMessages (fire_timer MessageSaveFails 3050 demo_followup_timer
                   ((demo_world [demo_ai_session In_progress])\<lparr>timers := [demo_followup_timer]\<rparr>)) =
     [\<lparr>doubtSession = 31, sender = None, senderRole = ''system'',
       messageText = Some ''AI encountered an error processing your follow-up. Please try again.'',
       attachmentUrl = None, createdAt = 3050\<rparr>]"
  by (simp add: fire_timer_def demo_followup_timer_def followup_reply_def followup_reply_catch_def
      save_message_def chatMessage_valid_def system_message_def truthy_def demo_world_def)

lemma find_append_keep:
  "find P xs = Some d \<Longrightarrow> find P (xs @ ys) = Some d"
  by (induction xs) auto

lemma create_session_keeps:
  assumes "create_session now studentId st sch x ty tr topic s0 w = Some (d, w1)"
    and "find_session w i = Some d0"
  shows "find_session w1 i = Some d0" "timers w1 = timers w"
  using assms
  by (auto simp: find_session_def find_append_keep dest!: create_session_Some)

lemma save_message_keeps:
  assumes "save_message m w = Some w1"
  shows "find_session w1 i = find_session w i" "timers w1 = timers w"
  using assms by (auto dest!: save_message_Some)

lemma initiate_trainer_keeps:
  assumes "t \<in> set (timers w)" and "find_session w i = Some d"
  shows "t \<in> set (timers (snd (initiate_trainer now studentId st sch x trainerId sessionId att w))) \<and>
         find_session (snd (initiate_trainer now studentId st sch x trainerId sessionId att w)) i = Some d"
  using assms
  by (auto simp: initiate_trainer_def create_session_keeps save_message_keeps
      split: option.splits prod.splits)

lemma initiate_ai_keeps:
  assumes "t \<in> set (timers w)" and "find_session w i = Some d"
  shows "t \<in> set (timers (snd (initiate_ai now studentId st sch x att w))) \<and>
         find_session (snd (initiate_ai now studentId st sch x att w)) i = Some d"
  using assms
  by (auto simp: initiate_ai_def create_session_keeps save_message_keeps
      split: option.splits prod.splits)

lemma initiate_keeps:
  assumes "t \<in> set (timers w)" and "find_session w i = Some d"
  shows "t \<in> set (timers (snd (initiateDoubtSession now studentId b w))) \<and>
         find_session (snd (initiateDoubtSession now studentId b w)) i = Some d"
  using assms
  by (simp add: initiateDoubtSession_def initiate_trainer_keeps initiate_ai_keeps
      split: option.splits)

lemma send_keeps:
  assumes "t \<in> set (timers w)" and "find_session w i = Some d"
  shows "t \<in> set (timers (snd (sendDoubtMessage now userId userRole text_in att req w))) \<and>
         (\<exists>d'. find_session (snd (sendDoubtMessage now userId userRole text_in att req w)) i = Some d')"
  using assms
  by (auto simp: sendDoubtMessage_def Let_def save_message_def find_session_update
      split: if_splits option.splits)

lemma close_keeps:
  assumes "t \<in> set (timers w)" and "find_session w i = Some d"
  shows "t \<in> set (timers (snd (closeDoubtSession now userId userRole req w))) \<and>
         (\<exists>d'. find_session (snd (closeDoubtSession now userId userRole req w)) i = Some d')"
  using assms
  by (auto simp: closeDoubtSession_def find_session_update split: if_splits option.splits)

lemma handle_keeps:
  assumes "t \<in> set (timers w)" and "find_session w i = Some d"
  shows "t \<in> set (timers (snd (handle r w))) \<and>
         (\<exists>d'. find_session (snd (handle r w)) i = Some d')"
proof (cases r)
  case (InitiateReq now userId userRole b)
  with initiate_keeps [OF assms] assms show ?thesis
    by (auto simp: initiate_route_def)
next
  case (MessagesReq userId userRole j)
  with assms show ?thesis
    by (auto simp: messages_route_def getDoubtSessionMessages_def split: sum.splits)
next
  case (SendReq now userId userRole j text_in att)
  with send_keeps [OF assms] assms show ?thesis
    by (auto simp: send_route_def split: sum.splits)
next
  case (CloseReq now userId userRole j)
  with close_keeps [OF assms] assms show ?thesis
    by (auto simp: close_route_def split: sum.splits)
qed

lemma requests_keep:
  assumes "t \<in> set (timers w)" and "find_session w i = Some d"
  shows "t \<in> set (timers (run (map Request rs) w)) \<and>
         (\<exists>d'. find_session (run (map Request rs) w) i = Some d')"
  using assms
proof (induction rs arbitrary: w d)
  case Nil
  then show ?case by simp
next
  case (Cons r rs)
  from handle_keeps [OF Cons.prems, of r] obtain d' where
    "t \<in> set (timers (snd (handle r w)))" "find_session (snd (handle r w)) i = Some d'"
    by blast
  from Cons.IH [OF this] show ?case by simp
qed

lemma fire_reply:
  assumes "t \<in> set (timers w)" and "fst t \<le> now"
    and "find_session w (task_session (snd t)) = Some d"
  shows "find_session (fire_timer NoFault now t w) (task_session (snd t)) =
           Some (d\<lparr>status := Resolved, lastMessageAt := now, updatedAt := now\<rparr>) \<and>
         (\<exists>x. x \<noteq> [] \<and> chatMessages (fire_timer NoFault now t w) =
                chatMessages w @
                [\<lparr>doubtSession = task_session (snd t), sender = None, senderRole = ''ai'',
                  messageText = Some x, attachmentUrl = None, createdAt = now\<rparr>])"
proof (cases "snd t")
  case (InitialReply i student_name x)
  then show ?thesis
    using assms
    by (simp add: fire_timer_def initial_reply_def save_message_def chatMessage_valid_def
        ai_message_def truthy_def find_session_update)
next
  case (FollowUpReply i text_in)
  then show ?thesis
    using assms
    by (simp add: fire_timer_def followup_reply_def save_message_def chatMessage_valid_def
        ai_message_def truthy_def find_session_update)
qed

text \<open>
  C9. A pending responder timer whose session is stored stays pending through any
  sequence of requests (initiate, read, send, close, by anyone): no handler takes it off
  the list. When it then fires after its delay (and no save fails), the AI reply is
  stored with no sender and the session's status is set to \<^verbatim>\<open>resolved\<close> with
  \<open>lastMessageAt\<close> at the firing time, whatever the requests did to the session,
  closing it included.
\<close>

theorem responder_fires_whatever_was_requested:
  assumes "t \<in> set (timers w)" and "fst t \<le> now"
    and "find_session w (task_session (snd t)) = Some d"
  shows "t \<in> set (timers (run (map Request rs) w)) \<and>
         map_option status
           (find_session (fire_timer NoFault now t (run (map Request rs) w))
              (task_session (snd t))) = Some Resolved \<and>
         map_option lastMessageAt
           (find_session (fire_timer NoFault now t (run (map Request rs) w))
              (task_session (snd t))) = Some now \<and>
         (\<exists>x. x \<noteq> [] \<and>
            chatMessages (fire_timer NoFault now t (run (map Request rs) w)) =
              chatMessages (run (map Request rs) w) @
              [\<lparr>doubtSession = task_session (snd t), sender = None, senderRole = ''ai'',
                messageText = Some x, attachmentUrl = None, createdAt = now\<rparr>])"
proof -
  from requests_keep [OF assms(1,3), of rs] obtain d' where
    k: "t \<in> set (timers (run (map Request rs) w))"
       "find_session (run (map Request rs) w) (task_session (snd t)) = Some d'"
    by blast
  from fire_reply [OF k(1) assms(2) k(2)] k(1) show ?thesis by simp
qed

theorem responder_fires_whatever_was_requested_witness:
  "timers (snd (initiate_route 50 1 ''student'' demo_ai_body (demo_world []))) =
     [(5050, InitialReply 100 ''Alice'' ''What is photosynthesis?'')] \<and>
   map_option status
     (find_session (run [Request (CloseReq 1000 1 ''student'' 100)]
                      (snd (initiate_route 50 1 ''student'' demo_ai_body (demo_world [])))) 100) =
     Some Closed \<and>
   (5050, InitialReply 100 ''Alice'' ''What is photosynthesis?'') \<in>
     set (timers (run [Request (CloseReq 1000 1 ''student'' 100)]
                    (snd (initiate_route 50 1 ''student'' demo_ai_body (demo_world []))))) \<and>
   map_option status
     (find_session
        (fire_timer NoFault 5050 (5050, InitialReply 100 ''Alice'' ''What is photosynthesis?'')
           (run [Request (CloseReq 1000 1 ''student'' 100)]
              (snd (initiate_route 50 1 ''student'' demo_ai_body (demo_world []))))) 100) =
     Some Resolved"
proof -
  let ?t = "(5050, InitialReply 100 ''Alice'' ''What is photosynthesis?'')"
  let ?w = "snd (initiate_route 50 1 ''student'' demo_ai_body (demo_world []))"
  have trim: "js_trim ''What is photosynthesis?'' = ''What is photosynthesis?''"
    by (simp add: js_trim_def is_space_def)
  have w: "?w = \<lparr>users = [(1, alice), (2, bob)], schools = [(''Lakeside'', 10)],
      sessionDocs = [[20, 21]],
      doubtSessions = [\<lparr>sid = 100, student = 1, trainer = None, grade = 7, school = 10,
        session = None, initialDoubtText = ''What is photosynthesis?'', doubtType = AiDoubt,
        status = In_progress, lastMessageAt = 50, updatedAt = 50\<rparr>],
      chatMessages = [\<lparr>doubtSession = 100, sender = Some 1, senderRole = ''student'',
        messageText = Some ''What is photosynthesis?'', attachmentUrl = None, createdAt = 50\<rparr>],
      timers = [?t], nextId = 101\<rparr>"
    by (simp add: initiate_route_def initiateDoubtSession_def initiate_ai_def demo_ai_body_def
        demo_world_def alice_def truthy_def js_string_def find_user_def find_school_def
        create_session_def trim Let_def save_message_def chatMessage_valid_def
        initial_message_def)
  have a1: "?t \<in> set (timers ?w)" unfolding w by simp
  have a2: "fst ?t \<le> (5050::nat)" by simp
  have a3: "find_session ?w (task_session (snd ?t)) =
      Some \<lparr>sid = 100, student = 1, trainer = None, grade = 7, school = 10,
        session = None, initialDoubtText = ''What is photosynthesis?'', doubtType = AiDoubt,
        status = In_progress, lastMessageAt = 50, updatedAt = 50\<rparr>"
    unfolding w by (simp add: find_session_def)
  have c: "map_option status
     (find_session (run [Request (CloseReq 1000 1 ''student'' 100)] ?w) 100) = Some Closed"
    unfolding w
    by (simp add: close_route_def isParticipantInDoubtSession_def closeDoubtSession_def
        find_session_def update_session_def)
  have t: "timers ?w = [?t]" unfolding w by simp
  from responder_fires_whatever_was_requested [OF a1 a2 a3,
      of "[CloseReq 1000 1 ''student'' 100]"] c t
  show ?thesis by simp
qed

end
